theory Spec2Isabelle
  imports Main
begin

section \<open>Python values used by the chat backend\<close>

text \<open>
  The backend is Python. Strings are modelled as \<open>string\<close>, Python's unbounded
  integers as \<open>int\<close>, lists as lists, dictionaries as maps. An exception is a value of
  \<open>exn\<close>; a call that may raise returns \<open>exn + 'a\<close> with \<open>Inl\<close> for the exception.
\<close>

datatype exn =
    ChatBotException string string
  | MemoryServiceException string exn
  | AIServiceException string exn
  | ValidationError string
  | NameError string
  | ValueError string
  | RuntimeError string
  | IndexError
  | OSError
  | ConnectionError
  | HTTPException nat string
  | Exception string

text \<open>
  A slice \<open>xs[a:b]\<close>: a missing bound is \<open>None\<close>, a negative bound counts from the
  end, and both bounds are clamped to the list.
\<close>

definition norm_index :: "int \<Rightarrow> int \<Rightarrow> int" where
  "norm_index n i = (if i < 0 then max 0 (n + i) else min i n)"

definition py_slice :: "'a list \<Rightarrow> int option \<Rightarrow> int option \<Rightarrow> 'a list" where
  "py_slice xs a b =
     (let n = int (length xs);
          s = (case a of None \<Rightarrow> 0 | Some i \<Rightarrow> norm_index n i);
          e = (case b of None \<Rightarrow> n | Some j \<Rightarrow> norm_index n j)
      in take (nat (e - s)) (drop (nat s) xs))"

text \<open>\<open>str.strip()\<close> removes leading and trailing whitespace.\<close>

definition is_space :: "char \<Rightarrow> bool" where
  "is_space c =
     (let k = (of_char c :: nat)
      in (9 \<le> k \<and> k \<le> 13) \<or> (28 \<le> k \<and> k \<le> 32) \<or> k = 133 \<or> k = 160)"

definition strip :: "string \<Rightarrow> string" where
  "strip s = rev (dropWhile is_space (rev (dropWhile is_space s)))"

text \<open>\<open>sep.join(xs)\<close>.\<close>

fun py_join :: "string \<Rightarrow> string list \<Rightarrow> string" where
  "py_join sep [] = []"
| "py_join sep [x] = x"
| "py_join sep (x # y # ys) = x @ sep @ py_join sep (y # ys)"

section \<open>Data model (app/models/chat.py)\<close>

text \<open>
  \<open>Message\<close> and \<open>Conversation\<close> as the pydantic models declare them. The timestamps
  (\<open>datetime.utcnow\<close>) and the free-form \<open>metadata\<close> dictionaries are left out: no
  operation below branches on them.
\<close>

datatype role = User | Assistant | System

record message =
  msg_id :: string
  content :: string
  role :: role
  session_id :: "string option"

record conversation =
  c_session_id :: string
  messages :: "message list"
  title :: "string option"

text \<open>\<open>Conversation.add_message\<close>: stamps the message with the conversation's session and appends it.\<close>

definition conversation_add_message :: "conversation \<Rightarrow> message \<Rightarrow> conversation" where
  "conversation_add_message c m =
     c\<lparr>messages := messages c @ [m\<lparr>session_id := Some (c_session_id c)\<rparr>]\<rparr>"

definition message_count :: "conversation \<Rightarrow> int" where
  "message_count c = int (length (messages c))"

section \<open>Environment and state\<close>

datatype backend = JSONStorageBackend | RedisStorageBackend

datatype log_level = INFO | WARNING | ERROR

record retrieved_doc =
  document :: string

datatype task = PopulateVectorMemory string string string

text \<open>
  The collaborators outside the repository are parameters: the settings, the failure
  schedule of the storage I/O (the \<open>k\<close>-th backend operation raises when \<open>io_fails k\<close>),
  the ChromaDB collection, the AI providers, the prompt configuration, the random choice,
  the Celery research task and pydantic's JSON serialiser. The collection's
  answer is taken in the form \<open>VectorMemoryService.query\<close> gives it (a list of documents).
\<close>

record env =
  max_history_messages :: int
  rag_top_k :: int
  current_provider :: string
  io_fails :: "nat \<Rightarrow> bool"
  uuid_of :: "nat \<Rightarrow> string"
  registered_providers :: "string list"
  provider_init_ok :: "string \<Rightarrow> bool"
  provider_generate :: "string \<Rightarrow> string \<Rightarrow> message list \<Rightarrow> exn + string"
  collection_query :: "string \<Rightarrow> int \<Rightarrow> exn + retrieved_doc list"
  error_messages :: "string list option"
  random_index :: nat
  celery_available :: bool
  research_triggers :: "string list"
  research_and_learn_delay :: "string \<Rightarrow> exn + unit"
  model_dump_json :: "conversation \<Rightarrow> string"
  export_as_text :: "conversation \<Rightarrow> string"
  export_as_markdown :: "conversation \<Rightarrow> string"

text \<open>
  The mutable state: the JSON backend's directory (a file is modelled by the conversation
  its text parses to), the Redis lists and hashes by key, the counters of I/O operations
  and generated UUIDs, the providers already initialised, and the observable effects
  (log lines, provider calls, retrieval queries, research triggers, scheduled tasks).
\<close>

record world =
  json_files :: "string \<rightharpoonup> conversation"
  redis_lists :: "string \<rightharpoonup> message list"
  redis_hashes :: "string \<rightharpoonup> (string \<rightharpoonup> string)"
  io_count :: nat
  uuid_count :: nat
  initialized_providers :: "string list"
  logs :: "(log_level \<times> string) list"
  provider_calls :: "(string \<times> string \<times> message list) list"
  vector_queries :: "(string \<times> int) list"
  research_calls :: "string list"
  tasks :: "task list"

definition log :: "log_level \<Rightarrow> string \<Rightarrow> world \<Rightarrow> world" where
  "log lvl ev w = w\<lparr>logs := logs w @ [(lvl, ev)]\<rparr>"

definition io :: "env \<Rightarrow> world \<Rightarrow> bool \<times> world" where
  "io E w = (io_fails E (io_count w), w\<lparr>io_count := Suc (io_count w)\<rparr>)"

definition uuid4 :: "env \<Rightarrow> world \<Rightarrow> string \<times> world" where
  "uuid4 E w = (uuid_of E (uuid_count w), w\<lparr>uuid_count := Suc (uuid_count w)\<rparr>)"

text \<open>
  \<open>Message(content=..., role=..., session_id=...)\<close>: pydantic checks the length bounds
  (1..4000), then the validator rejects blank content and returns the stripped text; the
  id comes from \<open>uuid4\<close>.
\<close>

definition new_message :: "env \<Rightarrow> string \<Rightarrow> role \<Rightarrow> string option \<Rightarrow> world \<Rightarrow> (exn + message) \<times> world" where
  "new_message E c r sid w =
     (if length c < 1 \<or> 4000 < length c then (Inl (ValidationError ''content length''), w)
      else if strip c = [] then (Inl (ValidationError ''Message content cannot be empty''), w)
      else (let (i, w1) = uuid4 E w
            in (Inr \<lparr>msg_id = i, content = strip c, role = r, session_id = sid\<rparr>, w1)))"

section \<open>Storage backends (app/services/memory_service.py)\<close>

subsection \<open>JSONStorageBackend\<close>

definition json_save_conversation :: "env \<Rightarrow> conversation \<Rightarrow> world \<Rightarrow> (exn + unit) \<times> world" where
  "json_save_conversation E c w =
     (let (bad, w1) = io E w
      in if bad then (Inl OSError, w1)
         else (Inr (), w1\<lparr>json_files := (json_files w1)(c_session_id c \<mapsto> c)\<rparr>))"

definition json_load_conversation :: "env \<Rightarrow> string \<Rightarrow> world \<Rightarrow> (exn + conversation option) \<times> world" where
  "json_load_conversation E sid w =
     (case json_files w sid of
        None \<Rightarrow> (Inr None, w)
      | Some c \<Rightarrow>
          (let (bad, w1) = io E w
           in if bad then (Inl OSError, w1) else (Inr (Some c), w1)))"

definition json_delete_conversation :: "env \<Rightarrow> string \<Rightarrow> world \<Rightarrow> (exn + unit) \<times> world" where
  "json_delete_conversation E sid w =
     (case json_files w sid of
        None \<Rightarrow> (Inr (), w)
      | Some c \<Rightarrow>
          (let (bad, w1) = io E w
           in if bad then (Inl OSError, w1)
              else (Inr (), w1\<lparr>json_files := (json_files w1)(sid := None)\<rparr>)))"

subsection \<open>RedisStorageBackend\<close>

text \<open>
  \<open>LTRIM key start stop\<close> keeps the elements from \<open>start\<close> to \<open>stop\<close>, both inclusive,
  negative indices counting from the end. Key expiry and the sorted set of sessions by
  update time are not modelled.
\<close>

definition redis_ltrim :: "'a list \<Rightarrow> int \<Rightarrow> int \<Rightarrow> 'a list" where
  "redis_ltrim xs start stop =
     (let n = int (length xs);
          s = (if start < 0 then max 0 (n + start) else start);
          e = (if stop < 0 then n + stop else min stop (n - 1))
      in if e < s \<or> n \<le> s then [] else take (nat (e - s + 1)) (drop (nat s) xs))"

definition key_messages :: "string \<Rightarrow> string" where
  "key_messages sid = ''conversation:'' @ sid @ '':messages''"

definition key_meta :: "string \<Rightarrow> string" where
  "key_meta sid = ''conversation:'' @ sid @ '':meta''"

definition redis_lrange_all :: "world \<Rightarrow> string \<Rightarrow> message list" where
  "redis_lrange_all w k = (case redis_lists w k of None \<Rightarrow> [] | Some xs \<Rightarrow> xs)"

definition redis_hgetall :: "world \<Rightarrow> string \<Rightarrow> (string \<rightharpoonup> string)" where
  "redis_hgetall w k = (case redis_hashes w k of None \<Rightarrow> Map.empty | Some h \<Rightarrow> h)"

definition redis_set_list :: "string \<Rightarrow> message list \<Rightarrow> world \<Rightarrow> world" where
  "redis_set_list k xs w =
     w\<lparr>redis_lists := (redis_lists w)(k := (if xs = [] then None else Some xs))\<rparr>"

text \<open>\<open>RedisStorageBackend.add_message\<close>: one pipeline of RPUSH, LTRIM and HSET, executed at once.\<close>

definition redis_add_message :: "env \<Rightarrow> string \<Rightarrow> message \<Rightarrow> world \<Rightarrow> (exn + unit) \<times> world" where
  "redis_add_message E sid m w =
     (let (bad, w1) = io E w
      in if bad then (Inl ConnectionError, log ERROR ''Redis add_message failed'' w1)
         else
           (let pushed = redis_lrange_all w1 (key_messages sid) @ [m];
                kept = redis_ltrim pushed (- max_history_messages E) (- 1);
                w2 = redis_set_list (key_messages sid) kept w1;
                meta = (redis_hgetall w2 (key_meta sid))
                         (''session_id'' \<mapsto> sid, ''last_message_preview'' \<mapsto> take 100 (content m))
            in (Inr (), w2\<lparr>redis_hashes := (redis_hashes w2)(key_meta sid \<mapsto> meta)\<rparr>)))"

definition meta_get :: "(string \<rightharpoonup> string) \<Rightarrow> string \<Rightarrow> string \<Rightarrow> string" where
  "meta_get h k d = (case h k of None \<Rightarrow> d | Some v \<Rightarrow> v)"

text \<open>\<open>RedisStorageBackend.load_conversation\<close>: any exception is logged and answered with \<open>None\<close>.\<close>

definition redis_load_conversation :: "env \<Rightarrow> string \<Rightarrow> world \<Rightarrow> conversation option \<times> world" where
  "redis_load_conversation E sid w =
     (let (bad1, w1) = io E w
      in if bad1 then (None, log ERROR ''Redis load_conversation failed'' w1)
         else
           (let messages_data = redis_lrange_all w1 (key_messages sid)
            in if messages_data = [] then (None, w1)
               else
                 (let (bad2, w2) = io E w1
                  in if bad2 then (None, log ERROR ''Redis load_conversation failed'' w2)
                     else
                       (let meta = redis_hgetall w2 (key_meta sid)
                        in if meta = Map.empty then (None, w2)
                           else (Some \<lparr>c_session_id = meta_get meta ''session_id'' sid,
                                        messages = messages_data,
                                        title = Some (meta_get meta ''title'' [])\<rparr>, w2)))))"

text \<open>\<open>RedisStorageBackend.delete_conversation\<close>: on a Redis error it falls back to the JSON backend.\<close>

definition redis_delete_conversation :: "env \<Rightarrow> string \<Rightarrow> world \<Rightarrow> (exn + unit) \<times> world" where
  "redis_delete_conversation E sid w =
     (let (bad, w1) = io E w
      in if bad
         then json_delete_conversation E sid
                (log ERROR ''Redis delete_conversation failed, falling back to JSON'' w1)
         else (Inr (), w1\<lparr>redis_lists := (redis_lists w1)(key_messages sid := None),
                          redis_hashes := (redis_hashes w1)(key_meta sid := None)\<rparr>))"

section \<open>MemoryService (app/services/memory_service.py)\<close>

text \<open>
  The service holds one storage backend, chosen at construction. Each method wraps the
  backend call in \<open>try/except Exception\<close>: the handler logs and answers with \<open>None\<close> or
  \<open>False\<close>.
\<close>

definition backend_load_conversation :: "env \<Rightarrow> backend \<Rightarrow> string \<Rightarrow> world \<Rightarrow> (exn + conversation option) \<times> world" where
  "backend_load_conversation E b sid w =
     (case b of
        JSONStorageBackend \<Rightarrow> json_load_conversation E sid w
      | RedisStorageBackend \<Rightarrow>
          (case redis_load_conversation E sid w of (r, w1) \<Rightarrow> (Inr r, w1)))"

definition load_conversation :: "env \<Rightarrow> backend \<Rightarrow> string \<Rightarrow> world \<Rightarrow> conversation option \<times> world" where
  "load_conversation E b sid w =
     (case backend_load_conversation E b sid w of
        (Inl e, w1) \<Rightarrow> (None, log ERROR ''Failed to load conversation'' w1)
      | (Inr None, w1) \<Rightarrow> (None, w1)
      | (Inr (Some c), w1) \<Rightarrow> (Some c, log INFO ''Conversation loaded'' w1))"

text \<open>
  \<open>save_conversation\<close> over the JSON backend, the only backend with which
  \<open>add_message\<close> calls it.
\<close>

definition save_conversation :: "env \<Rightarrow> conversation \<Rightarrow> world \<Rightarrow> bool \<times> world" where
  "save_conversation E c w =
     (case json_save_conversation E c w of
        (Inl e, w1) \<Rightarrow> (False, log ERROR ''Failed to save conversation'' w1)
      | (Inr u, w1) \<Rightarrow> (True, log INFO ''Conversation saved'' w1))"

definition add_message_body :: "env \<Rightarrow> backend \<Rightarrow> string \<Rightarrow> message \<Rightarrow> world \<Rightarrow> (exn + bool) \<times> world" where
  "add_message_body E b sid m w =
     (case b of
        RedisStorageBackend \<Rightarrow>
          (case redis_add_message E sid m w of
             (Inl e, w1) \<Rightarrow> (Inl e, w1)
           | (Inr u, w1) \<Rightarrow> (Inr True, log INFO ''Message added (atomic Redis)'' w1))
      | JSONStorageBackend \<Rightarrow>
          (let (loaded, w1) = load_conversation E b sid w;
               conv = (case loaded of
                         None \<Rightarrow> \<lparr>c_session_id = sid, messages = [], title = None\<rparr>
                       | Some c \<Rightarrow> c);
               conv2 = conversation_add_message conv m;
               conv3 = (if int (length (messages conv2)) > max_history_messages E
                        then conv2\<lparr>messages :=
                               py_slice (messages conv2) (Some (- max_history_messages E)) None\<rparr>
                        else conv2);
               (saved, w2) = save_conversation E conv3 w1
           in (Inr saved, w2)))"

definition add_message :: "env \<Rightarrow> backend \<Rightarrow> string \<Rightarrow> message \<Rightarrow> world \<Rightarrow> (exn + bool) \<times> world" where
  "add_message E b sid m w =
     (case add_message_body E b sid m w of
        (Inl e, w1) \<Rightarrow> (Inr False, log ERROR ''Failed to add message'' w1)
      | (Inr r, w1) \<Rightarrow> (Inr r, w1))"

definition get_conversation_history :: "env \<Rightarrow> backend \<Rightarrow> string \<Rightarrow> int \<Rightarrow> int \<Rightarrow> world \<Rightarrow> message list \<times> world" where
  "get_conversation_history E b sid limit offset w =
     (case load_conversation E b sid w of
        (None, w1) \<Rightarrow> ([], w1)
      | (Some c, w1) \<Rightarrow>
          (let ms = messages c;
               start_idx = max 0 (int (length ms) - offset - limit);
               end_idx = (if offset > 0 then int (length ms) - offset else int (length ms))
           in (py_slice ms (Some start_idx) (Some end_idx), w1)))"

definition backend_delete_conversation :: "env \<Rightarrow> backend \<Rightarrow> string \<Rightarrow> world \<Rightarrow> (exn + unit) \<times> world" where
  "backend_delete_conversation E b sid w =
     (case b of
        JSONStorageBackend \<Rightarrow> json_delete_conversation E sid w
      | RedisStorageBackend \<Rightarrow> redis_delete_conversation E sid w)"

definition delete_conversation :: "env \<Rightarrow> backend \<Rightarrow> string \<Rightarrow> world \<Rightarrow> bool \<times> world" where
  "delete_conversation E b sid w =
     (case backend_delete_conversation E b sid w of
        (Inl e, w1) \<Rightarrow> (False, log ERROR ''Failed to delete conversation'' w1)
      | (Inr u, w1) \<Rightarrow> (True, log INFO ''Conversation deleted'' w1))"

definition export_conversation :: "env \<Rightarrow> backend \<Rightarrow> string \<Rightarrow> string \<Rightarrow> world \<Rightarrow> (exn + string option) \<times> world" where
  "export_conversation E b sid fmt w =
     (case load_conversation E b sid w of
        (None, w1) \<Rightarrow> (Inr None, w1)
      | (Some c, w1) \<Rightarrow>
          (if fmt = ''json'' then (Inr (Some (model_dump_json E c)), w1)
           else if fmt = ''txt'' then (Inr (Some (export_as_text E c)), w1)
           else if fmt = ''markdown'' then (Inr (Some (export_as_markdown E c)), w1)
           else (Inl (ValueError ''Unsupported export format''), w1)))"

section \<open>HTTP routes (app/api/routes/chat.py)\<close>

record chat_history =
  h_session_id :: string
  h_messages :: "message list"
  total_messages :: int
  h_page :: int
  h_page_size :: int
  has_more :: bool

text \<open>
  Each route runs its body inside \<open>try\<close>; \<open>except MemoryServiceException\<close> and then
  \<open>except Exception\<close> turn whatever the body raised into a 500 response. The
  \<open>HTTPException\<close>s that the body raises itself are raised inside the same \<open>try\<close>.
\<close>

definition route_handlers :: "string \<Rightarrow> (exn + 'a) \<times> world \<Rightarrow> (exn + 'a) \<times> world" where
  "route_handlers what r =
     (case r of
        (Inl (MemoryServiceException msg e), w1) \<Rightarrow>
          (Inl (HTTPException 500 msg), log ERROR ''Memory service error'' w1)
      | (Inl e, w1) \<Rightarrow>
          (Inl (HTTPException 500 ''Internal server error''), log ERROR what w1)
      | (Inr v, w1) \<Rightarrow> (Inr v, w1))"

definition get_chat_history_body :: "env \<Rightarrow> backend \<Rightarrow> string \<Rightarrow> int \<Rightarrow> int \<Rightarrow> world \<Rightarrow> (exn + chat_history) \<times> world" where
  "get_chat_history_body E b sid page page_size w =
     (if page < 1 then (Inl (HTTPException 400 ''Page must be >= 1''), w)
      else if page_size < 1 \<or> page_size > 100
      then (Inl (HTTPException 400 ''Page size must be between 1 and 100''), w)
      else
        (let offset = (page - 1) * page_size;
             (fetched, w1) = get_conversation_history E b sid (page_size + 1) offset w;
             more = (int (length fetched) > page_size);
             trimmed = (if more then py_slice fetched None (Some page_size) else fetched);
             (conv, w2) = load_conversation E b sid w1;
             total = (case conv of None \<Rightarrow> 0 | Some c \<Rightarrow> message_count c)
         in (Inr \<lparr>h_session_id = sid, h_messages = trimmed, total_messages = total,
                   h_page = page, h_page_size = page_size, has_more = more\<rparr>,
             log INFO ''Chat history retrieved'' w2)))"

definition get_chat_history :: "env \<Rightarrow> backend \<Rightarrow> string \<Rightarrow> int \<Rightarrow> int \<Rightarrow> world \<Rightarrow> (exn + chat_history) \<times> world" where
  "get_chat_history E b sid page page_size w =
     route_handlers ''Unexpected error getting history''
       (get_chat_history_body E b sid page page_size w)"

definition delete_conversation_body :: "env \<Rightarrow> backend \<Rightarrow> string \<Rightarrow> world \<Rightarrow> (exn + string) \<times> world" where
  "delete_conversation_body E b sid w =
     (case delete_conversation E b sid w of
        (False, w1) \<Rightarrow> (Inl (HTTPException 404 ''Conversation not found''), w1)
      | (True, w1) \<Rightarrow>
          (Inr ''Conversation deleted successfully'', log INFO ''Conversation deleted'' w1))"

definition delete_conversation_route :: "env \<Rightarrow> backend \<Rightarrow> string \<Rightarrow> world \<Rightarrow> (exn + string) \<times> world" where
  "delete_conversation_route E b sid w =
     route_handlers ''Unexpected error deleting conversation''
       (delete_conversation_body E b sid w)"

text \<open>
  A client reading the history page by page: pages \<open>page, page + 1, ...\<close> are requested
  until one answers \<open>has_more = False\<close> (or an error); the messages are concatenated.
  \<open>fuel\<close> bounds the number of requests; \<open>None\<close> means it ran out.
\<close>

fun collect_pages :: "nat \<Rightarrow> env \<Rightarrow> backend \<Rightarrow> string \<Rightarrow> int \<Rightarrow> int \<Rightarrow> world \<Rightarrow> message list option" where
  "collect_pages 0 E b sid page_size page w = None"
| "collect_pages (Suc fuel) E b sid page_size page w =
     (case get_chat_history E b sid page page_size w of
        (Inl e, w1) \<Rightarrow> Some []
      | (Inr h, w1) \<Rightarrow>
          (if has_more h
           then (case collect_pages fuel E b sid page_size (page + 1) w1 of
                   None \<Rightarrow> None
                 | Some rest \<Rightarrow> Some (h_messages h @ rest))
           else Some (h_messages h)))"

section \<open>PromptManager (app/utils/prompts.py)\<close>

text \<open>
  \<open>get_error_message\<close> draws with \<open>random.choice\<close> from the configured
  \<open>error_messages\<close> (a built-in default when the key is missing); \<open>random.choice\<close>
  raises \<open>IndexError\<close> on an empty list.
\<close>

definition get_error_message :: "env \<Rightarrow> exn + string" where
  "get_error_message E =
     (let msgs = (case error_messages E of
                    None \<Rightarrow> [''Sorry, something went wrong. Please try again.'']
                  | Some l \<Rightarrow> l)
      in if msgs = [] then Inl IndexError
         else Inr (msgs ! (random_index E mod length msgs)))"

section \<open>VectorMemoryService (app/services/vector_memory_service.py)\<close>

text \<open>\<open>query\<close> logs a failure of the collection and raises it again.\<close>

definition vector_query :: "env \<Rightarrow> string \<Rightarrow> int \<Rightarrow> world \<Rightarrow> (exn + retrieved_doc list) \<times> world" where
  "vector_query E query_text top_k w =
     (let w1 = w\<lparr>vector_queries := vector_queries w @ [(query_text, top_k)]\<rparr>
      in case collection_query E query_text top_k of
           Inl e \<Rightarrow> (Inl e, log ERROR ''Failed to query ChromaDB'' w1)
         | Inr docs \<Rightarrow> (Inr docs, log INFO ''ChromaDB query successful'' w1))"

section \<open>AIService (app/services/ai_service.py)\<close>

definition get_provider :: "env \<Rightarrow> string option \<Rightarrow> world \<Rightarrow> (exn + string) \<times> world" where
  "get_provider E provider w =
     (let provider_name = (case provider of
                             None \<Rightarrow> current_provider E
                           | Some p \<Rightarrow> if p = [] then current_provider E else p)
      in if provider_name \<notin> set (registered_providers E)
         then (Inl (ValueError ''Provider not registered''), w)
         else if provider_name \<in> set (initialized_providers w) then (Inr provider_name, w)
         else if provider_init_ok E provider_name
         then (Inr provider_name,
               log INFO ''provider initialized''
                 (w\<lparr>initialized_providers := provider_name # initialized_providers w\<rparr>))
         else (Inl (RuntimeError ''Failed to initialize provider''),
               log ERROR ''Failed to initialize provider'' w))"

definition nl :: char where
  "nl = CHR 0x0A"

definition rag_note :: "retrieved_doc list \<Rightarrow> string" where
  "rag_note docs =
     [nl, nl] @ ''Relevant information from memory:'' @ [nl] @ py_join [nl] (map document docs)"

text \<open>
  \<open>_get_rag_context_and_modify_messages\<close>. The copy \<open>list(context)\<close> shares its
  messages with the caller's list; the callers pass messages freshly loaded from the
  store, so the in-place \<open>+=\<close> is modelled on the returned list.
\<close>

definition get_rag_context_and_modify_messages :: "env \<Rightarrow> string \<Rightarrow> message list \<Rightarrow> world \<Rightarrow> (exn + message list \<times> bool) \<times> world" where
  "get_rag_context_and_modify_messages E msg ctx w =
     (case vector_query E msg (rag_top_k E) w of
        (Inl e, w1) \<Rightarrow> (Inl e, w1)
      | (Inr retrieved_docs, w1) \<Rightarrow>
          (let rag_context = (if retrieved_docs \<noteq> [] then rag_note retrieved_docs else []);
               rag_enabled = (retrieved_docs \<noteq> []);
               w2 = (if retrieved_docs \<noteq> [] then log INFO ''RAG context retrieved'' w1 else w1);
               modified_context = ctx
           in if rag_context \<noteq> []
              then (if modified_context \<noteq> [] \<and> role (hd modified_context) = System
                    then (Inr ((hd modified_context)
                                 \<lparr>content := content (hd modified_context) @ rag_context\<rparr>
                               # tl modified_context, rag_enabled), w2)
                    else (case new_message E rag_context System (Some ''rag_context'') w2 of
                            (Inl e, w3) \<Rightarrow> (Inl e, w3)
                          | (Inr m, w3) \<Rightarrow> (Inr (m # modified_context, rag_enabled), w3)))
              else (Inr (modified_context, rag_enabled), w2)))"

text \<open>
  Name resolution inside \<open>generate_response\<close>: a name is found when the function binds
  it (parameters and assigned variables) or the module \<open>ai_service\<close> binds it at top
  level; Python's built-in names are not listed, none of them is looked up below.
  Otherwise the lookup raises \<open>NameError\<close>.
\<close>

definition generate_response_locals :: "string list" where
  "generate_response_locals =
     [''self'', ''message'', ''context'', ''settings'', ''stream'', ''provider'',
      ''start_time'', ''ai_provider'', ''provider_name'', ''chat_settings'',
      ''modified_context'', ''rag_enabled'', ''response'', ''e'', ''processing_time'']"

definition ai_service_globals :: "string list" where
  "ai_service_globals =
     [''asyncio'', ''json'', ''time'', ''List'', ''Dict'', ''Any'', ''Optional'',
      ''AsyncGenerator'', ''Type'', ''structlog'', ''get_settings'', ''Message'',
      ''ChatSettings'', ''PromptManager'', ''OpenAIProvider'', ''GeminiProvider'',
      ''VectorMemoryService'', ''logger'', ''AIService'']"

definition load_name :: "string \<Rightarrow> exn + unit" where
  "load_name n =
     (if n \<in> set generate_response_locals \<or> n \<in> set ai_service_globals then Inr ()
      else Inl (NameError n))"

text \<open>
  The \<open>try\<close> block of \<open>generate_response\<close>: the provider, the retrieval step, the
  keyword arguments of the \<open>logger.info\<close> call (the last one reads \<open>rag_context\<close>), then
  the provider's \<open>generate_response\<close>.
\<close>

definition generate_response_body :: "env \<Rightarrow> string \<Rightarrow> message list \<Rightarrow> string option \<Rightarrow> world \<Rightarrow> (exn + string) \<times> world" where
  "generate_response_body E msg ctx provider w =
     (case get_provider E provider w of
        (Inl e, w1) \<Rightarrow> (Inl e, w1)
      | (Inr ai_provider, w1) \<Rightarrow>
          (case get_rag_context_and_modify_messages E msg ctx w1 of
             (Inl e, w2) \<Rightarrow> (Inl e, w2)
           | (Inr (modified_context, rag_enabled), w2) \<Rightarrow>
               (case load_name ''rag_context'' of
                  Inl e \<Rightarrow> (Inl e, w2)
                | Inr u \<Rightarrow>
                    (let w3 = log INFO ''AI request started'' w2;
                         w4 = w3\<lparr>provider_calls :=
                                 provider_calls w3 @ [(ai_provider, msg, modified_context)]\<rparr>
                     in (provider_generate E ai_provider msg modified_context, w4)))))"

text \<open>
  \<open>generate_response\<close>: \<open>except Exception\<close> logs and returns the fallback text;
  \<open>finally\<close> logs the completion.
\<close>

definition generate_response :: "env \<Rightarrow> string \<Rightarrow> message list \<Rightarrow> string option \<Rightarrow> world \<Rightarrow> (exn + string) \<times> world" where
  "generate_response E msg ctx provider w =
     (case generate_response_body E msg ctx provider w of
        (Inr response, w1) \<Rightarrow> (Inr response, log INFO ''AI request completed'' w1)
      | (Inl e, w1) \<Rightarrow>
          (get_error_message E,
           log INFO ''AI request completed'' (log ERROR ''AI generation failed'' w1)))"

section \<open>MessageHandlerService (app/services/message_handler_service.py)\<close>

text \<open>
  The handler receives its collaborators through its constructor; the tests inject
  replacements. \<open>services\<close> holds the methods \<open>process_message\<close> calls on them, and
  \<open>default_services\<close> wires the classes of the repository.
\<close>

record services =
  svc_add_message :: "string \<Rightarrow> message \<Rightarrow> world \<Rightarrow> (exn + bool) \<times> world"
  svc_get_conversation_history :: "string \<Rightarrow> int \<Rightarrow> int \<Rightarrow> world \<Rightarrow> (exn + message list) \<times> world"
  svc_generate_response :: "string \<Rightarrow> message list \<Rightarrow> world \<Rightarrow> (exn + string) \<times> world"
  svc_trigger_research_if_needed :: "string \<Rightarrow> string \<Rightarrow> string \<Rightarrow> world \<Rightarrow> (exn + unit) \<times> world"

text \<open>
  \<open>ResearchService.trigger_research_if_needed\<close> (app/services/research_service.py):
  without the Celery worker it only warns; otherwise it starts the research task when a
  configured trigger phrase occurs in the reply, compared in lower case.
\<close>

definition py_lower :: "string \<Rightarrow> string" where
  "py_lower s =
     map (\<lambda>c. let k = (of_char c :: nat) in if 65 \<le> k \<and> k \<le> 90 then char_of (k + 32) else c) s"

fun py_in :: "string \<Rightarrow> string \<Rightarrow> bool" where
  "py_in t [] = (t = [])"
| "py_in t (x # xs) = (take (length t) (x # xs) = t \<or> py_in t xs)"

definition trigger_research_if_needed :: "env \<Rightarrow> string \<Rightarrow> string \<Rightarrow> string \<Rightarrow> world \<Rightarrow> (exn + unit) \<times> world" where
  "trigger_research_if_needed E user_message ai_response sid w =
     (if \<not> celery_available E
      then (Inr (), log WARNING ''Celery worker not available, research_and_learn not imported'' w)
      else if list_ex (\<lambda>trigger. py_in (py_lower trigger) (py_lower ai_response))
                (research_triggers E)
      then (research_and_learn_delay E user_message,
            log INFO ''Triggering research_and_learn Celery task''
              (w\<lparr>research_calls := research_calls w @ [user_message]\<rparr>))
      else (Inr (), w))"

definition default_services :: "env \<Rightarrow> backend \<Rightarrow> services" where
  "default_services E b =
     \<lparr>svc_add_message = add_message E b,
      svc_get_conversation_history =
        (\<lambda>sid limit offset w.
           (case get_conversation_history E b sid limit offset w of (ms, w1) \<Rightarrow> (Inr ms, w1))),
      svc_generate_response = (\<lambda>msg ctx w. generate_response E msg ctx None w),
      svc_trigger_research_if_needed = trigger_research_if_needed E\<rparr>"

record reply =
  r_message :: string
  r_message_id :: string
  r_session_id :: string
  r_role :: string

definition process_message :: "env \<Rightarrow> services \<Rightarrow> string option \<Rightarrow> message \<Rightarrow> world \<Rightarrow> (exn + reply) \<times> world" where
  "process_message E S session message w =
     (if strip (content message) = []
      then (Inl (ChatBotException ''Empty message'' ''EMPTY_MESSAGE''), w)
      else
        (let (sid, w1) = (case session of
                            None \<Rightarrow> uuid4 E w
                          | Some s \<Rightarrow> if s = [] then uuid4 E w else (s, w));
             user_msg = message\<lparr>session_id := Some sid\<rparr>
         in case svc_add_message S sid user_msg w1 of
              (Inl e, w2) \<Rightarrow>
                (Inl (MemoryServiceException ''Failed to save user message'' e),
                 log ERROR ''Error adding user message to memory'' w2)
            | (Inr stored, w2) \<Rightarrow>
                (case svc_get_conversation_history S sid 10 0 w2 of
                   (Inl e, w3) \<Rightarrow> (Inl e, w3)
                 | (Inr ctx, w3) \<Rightarrow>
                     (case svc_generate_response S (content user_msg)
                             (py_slice ctx None (Some (- 1))) w3 of
                        (Inl e, w4) \<Rightarrow>
                          (Inl (AIServiceException ''Failed to generate AI response'' e),
                           log ERROR ''Error generating AI response'' w4)
                      | (Inr ai_response, w4) \<Rightarrow>
                          (case new_message E ai_response Assistant (Some sid) w4 of
                             (Inl e, w5) \<Rightarrow> (Inl e, w5)
                           | (Inr ai_msg, w5) \<Rightarrow>
                               (case svc_add_message S sid ai_msg w5 of
                                  (Inl e, w6) \<Rightarrow>
                                    (Inl (MemoryServiceException ''Failed to save AI message'' e),
                                     log ERROR ''Error adding AI message to memory'' w6)
                                | (Inr stored2, w6) \<Rightarrow>
                                    (let w7 = w6\<lparr>tasks := tasks w6 @
                                                 [PopulateVectorMemory (content user_msg) ai_response sid]\<rparr>;
                                         w8 = (case svc_trigger_research_if_needed S
                                                      (content user_msg) ai_response sid w7 of
                                                 (Inl e, w') \<Rightarrow>
                                                   log ERROR ''Failed to trigger research agent'' w'
                                               | (Inr u, w') \<Rightarrow> w')
                                     in (Inr \<lparr>r_message = ai_response,
                                               r_message_id = msg_id ai_msg,
                                               r_session_id = sid,
                                               r_role = ''assistant''\<rparr>, w8))))))))"

section \<open>Vocabulary of the properties\<close>




definition session_absent :: "backend \<Rightarrow> world \<Rightarrow> string \<Rightarrow> bool" where
  "session_absent b w sid =
     (case b of
        JSONStorageBackend \<Rightarrow> json_files w sid = None
      | RedisStorageBackend \<Rightarrow> redis_lists w (key_messages sid) = None)"

text \<open>No storage operation fails.\<close>

definition no_faults :: "env \<Rightarrow> bool" where
  "no_faults E = (\<forall>k. \<not> io_fails E k)"

text \<open>A sequence of \<open>add_message\<close> calls on one session.\<close>

fun add_messages :: "env \<Rightarrow> backend \<Rightarrow> string \<Rightarrow> message list \<Rightarrow> world \<Rightarrow> world" where
  "add_messages E b sid [] w = w"
| "add_messages E b sid (m # ms) w = add_messages E b sid ms (snd (add_message E b sid m w))"


text \<open>
  The session id \<open>process_message\<close> works with: the caller's, or a fresh UUID when the
  caller gave none (or an empty one).
\<close>

definition resolve_session :: "env \<Rightarrow> string option \<Rightarrow> world \<Rightarrow> string \<times> world" where
  "resolve_session E session w =
     (case session of None \<Rightarrow> uuid4 E w | Some s \<Rightarrow> if s = [] then uuid4 E w else (s, w))"

text \<open>Two states hold the same stored conversations.\<close>

definition same_store :: "world \<Rightarrow> world \<Rightarrow> bool" where
  "same_store w w' =
     (json_files w' = json_files w \<and> redis_lists w' = redis_lists w
      \<and> redis_hashes w' = redis_hashes w)"

text \<open>
  Between two states \<open>w\<close> and \<open>w'\<close> of a run: some storage operation issued in between
  failed, and some line of level \<open>ERROR\<close> was written to the log in between.
\<close>

definition io_failed_between :: "env \<Rightarrow> world \<Rightarrow> world \<Rightarrow> bool" where
  "io_failed_between E w w' = list_ex (io_fails E) [io_count w ..< io_count w']"

definition error_logged_between :: "world \<Rightarrow> world \<Rightarrow> bool" where
  "error_logged_between w w' = list_ex (\<lambda>entry. fst entry = ERROR) (drop (length (logs w)) (logs w'))"

text \<open>
  A step from \<open>w\<close> to \<open>w'\<close> only appends to the log, only issues storage operations,
  and writes an \<open>ERROR\<close> line when one of its storage operations fails.
\<close>

definition step_logs_failures :: "env \<Rightarrow> world \<Rightarrow> world \<Rightarrow> bool" where
  "step_logs_failures E w w' =
     (\<exists>xs. logs w' = logs w @ xs \<and> io_count w \<le> io_count w'
           \<and> ((\<exists>k. io_count w \<le> k \<and> k < io_count w' \<and> io_fails E k)
                \<longrightarrow> (\<exists>ev. (ERROR, ev) \<in> set xs)))"



section \<open>Example inputs\<close>

text \<open>
  An environment in which every collaborator works, with a toy serialiser that writes the
  message count and the session id, an empty state, and user messages.
\<close>

definition demo_env :: env where
  "demo_env =
     \<lparr>max_history_messages = 50, rag_top_k = 3, current_provider = ''openai'',
      io_fails = (\<lambda>k. False), uuid_of = (\<lambda>n. ''uuid-'' @ replicate n (CHR ''i'')),
      registered_providers = [''openai'', ''gemini''], provider_init_ok = (\<lambda>p. True),
      provider_generate = (\<lambda>p m c. Inr ''Hi!''), collection_query = (\<lambda>q k. Inr []),
      error_messages = Some [''Sorry, something went wrong.''], random_index = 0,
      celery_available = False, research_triggers = [],
      research_and_learn_delay = (\<lambda>q. Inr ()),
      model_dump_json = (\<lambda>c. replicate (length (messages c)) (CHR ''m'') @ '':'' @ c_session_id c),
      export_as_text = (\<lambda>c. []), export_as_markdown = (\<lambda>c. [])\<rparr>"

definition empty_world :: world where
  "empty_world =
     \<lparr>json_files = Map.empty, redis_lists = Map.empty, redis_hashes = Map.empty,
      io_count = 0, uuid_count = 0, initialized_providers = [], logs = [],
      provider_calls = [], vector_queries = [], research_calls = [], tasks = []\<rparr>"

definition user_message :: "string \<Rightarrow> string \<Rightarrow> string \<Rightarrow> message" where
  "user_message i c sid = \<lparr>msg_id = i, content = c, role = User, session_id = Some sid\<rparr>"


text \<open>
  Collaborators as the handler's unit test \<open>test_process_message_ai_save_error\<close> injects
  them: \<open>add_message\<close> succeeds for the user message and raises for the assistant message,
  the history is the user message, the generated reply is \<open>Hi!\<close>.
\<close>

definition mock_services :: "message \<Rightarrow> services" where
  "mock_services msg =
     \<lparr>svc_add_message =
        (\<lambda>sid m w. if role m = Assistant then (Inl (Exception ''ai save fail''), w)
                   else (Inr True, w)),
      svc_get_conversation_history = (\<lambda>sid limit offset w. (Inr [msg], w)),
      svc_generate_response = (\<lambda>m ctx w. (Inr ''Hi!'', w)),
      svc_trigger_research_if_needed = (\<lambda>a b c w. (Inr (), w))\<rparr>"

text \<open>A state in which the session \<open>s1\<close> holds two messages.\<close>

definition two_message_world :: world where
  "two_message_world =
     add_messages demo_env JSONStorageBackend ''s1''
       [user_message ''1'' ''first'' ''s1'', user_message ''2'' ''second'' ''s1''] empty_world"

section \<open>Lemmas about the storage layer\<close>






lemma add_message_never_raises: "\<exists>r. fst (add_message E b sid m w) = Inr r"
  by (cases "add_message_body E b sid m w"; cases "fst (add_message_body E b sid m w)")
     (auto simp: add_message_def)


lemma io_no_faults: "no_faults E \<Longrightarrow> io E w = (False, w\<lparr>io_count := Suc (io_count w)\<rparr>)"
  by (simp add: io_def no_faults_def)

lemma json_files_log [simp]: "json_files (log lvl ev w) = json_files w"
  by (simp add: log_def)

lemma redis_lists_log [simp]: "redis_lists (log lvl ev w) = redis_lists w"
  by (simp add: log_def)

lemma redis_hashes_log [simp]: "redis_hashes (log lvl ev w) = redis_hashes w"
  by (simp add: log_def)







lemma add_message_json_unfold:
  "add_message E JSONStorageBackend sid m w =
     (let loaded = fst (load_conversation E JSONStorageBackend sid w);
          w1 = snd (load_conversation E JSONStorageBackend sid w);
          conv = (case loaded of
                    None \<Rightarrow> \<lparr>c_session_id = sid, messages = [], title = None\<rparr>
                  | Some c \<Rightarrow> c);
          conv2 = conversation_add_message conv m;
          conv3 = (if int (length (messages conv2)) > max_history_messages E
                   then conv2\<lparr>messages :=
                          py_slice (messages conv2) (Some (- max_history_messages E)) None\<rparr>
                   else conv2)
      in (Inr (fst (save_conversation E conv3 w1)), snd (save_conversation E conv3 w1)))"
  by (simp add: add_message_def add_message_body_def Let_def split_def)












section \<open>Retention on append\<close>




section \<open>Lemmas about the AI service\<close>

lemma load_name_rag_context: "load_name ''rag_context'' = Inl (NameError ''rag_context'')"
  by (simp add: load_name_def generate_response_locals_def ai_service_globals_def)

lemma provider_calls_log [simp]: "provider_calls (log lvl ev w) = provider_calls w"
  by (simp add: log_def)

lemma get_provider_calls: "provider_calls (snd (get_provider E p w)) = provider_calls w"
  by (simp add: get_provider_def Let_def)

lemma new_message_calls: "provider_calls (snd (new_message E c r sid w)) = provider_calls w"
  by (simp add: new_message_def uuid4_def Let_def)

lemma vector_query_calls: "provider_calls (snd (vector_query E q k w)) = provider_calls w"
  by (simp add: vector_query_def Let_def split: sum.splits)

lemma rag_calls:
  "provider_calls (snd (get_rag_context_and_modify_messages E msg ctx w)) = provider_calls w"
  using vector_query_calls[of E msg "rag_top_k E" w]
  by (auto simp: get_rag_context_and_modify_messages_def Let_def new_message_def uuid4_def split: sum.splits prod.splits)

lemma body_raises:
  "\<exists>e. fst (generate_response_body E msg ctx p w) = Inl e"
  by (auto simp: generate_response_body_def load_name_rag_context split: sum.splits prod.splits)

lemma body_calls:
  "provider_calls (snd (generate_response_body E msg ctx p w)) = provider_calls w"
proof (cases "get_provider E p w")
  case (Pair r w1)
  have w1: "provider_calls w1 = provider_calls w"
    using get_provider_calls[of E p w] Pair by simp
  show ?thesis
  proof (cases r)
    case (Inl e)
    with Pair w1 show ?thesis by (simp add: generate_response_body_def)
  next
    case (Inr ai_provider)
    obtain r2 w2 where rag: "get_rag_context_and_modify_messages E msg ctx w1 = (r2, w2)"
      by (cases "get_rag_context_and_modify_messages E msg ctx w1")
    have w2: "provider_calls w2 = provider_calls w"
      using rag_calls[of E msg ctx w1] rag w1 by simp
    from Pair Inr rag w2 show ?thesis
      by (simp add: generate_response_body_def load_name_rag_context split: sum.splits prod.splits)
  qed
qed

lemma generate_response_fallback:
  "fst (generate_response E msg ctx p w) = get_error_message E"
  using body_raises[of E msg ctx p w]
  by (auto simp: generate_response_def split: sum.splits prod.splits)

lemma generate_response_calls:
  "provider_calls (snd (generate_response E msg ctx p w)) = provider_calls w"
  using body_calls[of E msg ctx p w]
  by (auto simp: generate_response_def split: sum.splits prod.splits)


lemma body_name_error:
  assumes "get_provider E provider w = (Inr p, w1)"
    and "get_rag_context_and_modify_messages E msg ctx w1 = (Inr mc, w2)"
  shows "generate_response_body E msg ctx provider w = (Inl (NameError ''rag_context''), w2)"
  using assms by (cases mc) (simp add: generate_response_body_def load_name_rag_context)

lemma generate_response_logs_failure:
  "(ERROR, ''AI generation failed'') \<in> set (logs (snd (generate_response E msg ctx p w)))"
  using body_raises[of E msg ctx p w]
  by (auto simp: generate_response_def log_def split: sum.splits prod.splits)

lemma demo_get_provider:
  "get_provider demo_env None empty_world
   = (Inr ''openai'',
      log INFO ''provider initialized'' (empty_world\<lparr>initialized_providers := [''openai'']\<rparr>))"
  by (simp add: get_provider_def demo_env_def empty_world_def Let_def)

lemma demo_rag:
  "get_rag_context_and_modify_messages demo_env ''Hello'' [] w
   = (Inr ([], False),
      log INFO ''ChromaDB query successful'' (w\<lparr>vector_queries := vector_queries w @ [(''Hello'', 3)]\<rparr>))"
  by (simp add: get_rag_context_and_modify_messages_def vector_query_def demo_env_def Let_def)

lemma rag_raises:
  "collection_query E msg (rag_top_k E) = Inl e \<Longrightarrow>
   fst (get_rag_context_and_modify_messages E msg ctx w) = Inl e"
  by (simp add: get_rag_context_and_modify_messages_def vector_query_def Let_def)

lemma body_retrieval_error:
  assumes "collection_query E msg (rag_top_k E) = Inl e"
    and "get_provider E provider w = (Inr p, w1)"
  shows "fst (generate_response_body E msg ctx provider w) = Inl e"
  using assms rag_raises[OF assms(1), of ctx w1]
  by (cases "get_rag_context_and_modify_messages E msg ctx w1")
     (simp add: generate_response_body_def)

lemma chroma_down_get_provider:
  "get_provider (demo_env\<lparr>collection_query := (\<lambda>q k. Inl (Exception ''chroma unavailable''))\<rparr>)
     None empty_world
   = (Inr ''openai'',
      log INFO ''provider initialized'' (empty_world\<lparr>initialized_providers := [''openai'']\<rparr>))"
  by (simp add: get_provider_def demo_env_def empty_world_def Let_def)


section \<open>generate_response always answers with the fallback text\<close>

text \<open>
  Claim C3. For every message, context, provider argument and state,
  \<open>generate_response\<close> returns what \<open>PromptManager.get_error_message\<close> returns, and the
  provider's \<open>generate_response\<close> is not called (the recorded provider calls are
  unchanged). Whenever the provider is available and the retrieval step returns, the
  \<open>try\<close> block raises \<open>NameError\<close> for \<open>rag_context\<close>, which the catch-all handler turns
  into the fallback.
\<close>

theorem generate_response_always_fallback:
  "fst (generate_response E msg ctx provider w) = get_error_message E
   \<and> provider_calls (snd (generate_response E msg ctx provider w)) = provider_calls w
   \<and> (\<forall>p w1 mc w2.
         get_provider E provider w = (Inr p, w1)
         \<and> get_rag_context_and_modify_messages E msg ctx w1 = (Inr mc, w2)
         \<longrightarrow> fst (generate_response_body E msg ctx provider w) = Inl (NameError ''rag_context''))"
  using generate_response_fallback[of E msg ctx provider w]
    generate_response_calls[of E msg ctx provider w]
  by (auto simp: body_name_error)

theorem generate_response_always_fallback_witness:
  "fst (generate_response demo_env ''Hello'' [] None empty_world) = Inr ''Sorry, something went wrong.''
   \<and> provider_calls (snd (generate_response demo_env ''Hello'' [] None empty_world)) = []
   \<and> provider_generate demo_env ''openai'' ''Hello'' [] = Inr ''Hi!''
   \<and> fst (generate_response_body demo_env ''Hello'' [] None empty_world) = Inl (NameError ''rag_context'')"
proof -
  note t = generate_response_always_fallback[of demo_env "''Hello''" "[]" None empty_world]
  have f: "get_error_message demo_env = Inr ''Sorry, something went wrong.''"
    by (simp add: get_error_message_def demo_env_def)
  have c: "provider_calls empty_world = []" by (simp add: empty_world_def)
  have g: "provider_generate demo_env ''openai'' ''Hello'' [] = Inr ''Hi!''"
    by (simp add: demo_env_def)
  from t f c g demo_get_provider demo_rag show ?thesis by auto
qed



section \<open>A failing retrieval query\<close>

text \<open>
  Claim C4, as amended. When the collection's query raises \<open>e\<close>, \<open>generate_response\<close>
  does not raise \<open>e\<close>: its catch-all handler logs the failure and returns the fallback
  text of \<open>get_error_message\<close>; the provider is not called. With the provider available,
  \<open>e\<close> is the exception the \<open>try\<close> block raised.
\<close>

theorem retrieval_failure_gives_fallback:
  assumes "collection_query E msg (rag_top_k E) = Inl e"
  shows "fst (generate_response E msg ctx provider w) = get_error_message E
         \<and> provider_calls (snd (generate_response E msg ctx provider w)) = provider_calls w
         \<and> (ERROR, ''AI generation failed'') \<in> set (logs (snd (generate_response E msg ctx provider w)))
         \<and> (\<forall>p w1. get_provider E provider w = (Inr p, w1)
               \<longrightarrow> fst (generate_response_body E msg ctx provider w) = Inl e)"
  using generate_response_fallback[of E msg ctx provider w]
    generate_response_calls[of E msg ctx provider w]
    generate_response_logs_failure[of E msg ctx provider w]
    body_retrieval_error[OF assms]
  by blast

theorem retrieval_failure_gives_fallback_witness:
  "collection_query (demo_env\<lparr>collection_query := (\<lambda>q k. Inl (Exception ''chroma unavailable''))\<rparr>)
     ''Hello'' 3 = Inl (Exception ''chroma unavailable'')
   \<and> fst (generate_response
            (demo_env\<lparr>collection_query := (\<lambda>q k. Inl (Exception ''chroma unavailable''))\<rparr>)
            ''Hello'' [] None empty_world) = Inr ''Sorry, something went wrong.''
   \<and> fst (generate_response_body
            (demo_env\<lparr>collection_query := (\<lambda>q k. Inl (Exception ''chroma unavailable''))\<rparr>)
            ''Hello'' [] None empty_world) = Inl (Exception ''chroma unavailable'')"
proof -
  let ?E = "demo_env\<lparr>collection_query := (\<lambda>q k. Inl (Exception ''chroma unavailable''))\<rparr>"
  have q: "collection_query ?E ''Hello'' (rag_top_k ?E) = Inl (Exception ''chroma unavailable'')"
    by simp
  have f: "get_error_message ?E = Inr ''Sorry, something went wrong.''"
    by (simp add: get_error_message_def demo_env_def)
  from retrieval_failure_gives_fallback[OF q, of "[]" None empty_world] f chroma_down_get_provider
  show ?thesis by auto
qed

text \<open>
  The claim as stated has the provider called with the unaugmented context and a normal
  response produced. With a collection that raises and a provider that would answer
  \<open>Hi!\<close>, the result is the fallback text and no provider call is recorded.
\<close>

theorem retrieval_failure_counterexample:
  "collection_query (demo_env\<lparr>collection_query := (\<lambda>q k. Inl (Exception ''chroma unavailable''))\<rparr>)
     ''Hello'' 3 = Inl (Exception ''chroma unavailable'')
   \<and> provider_generate
        (demo_env\<lparr>collection_query := (\<lambda>q k. Inl (Exception ''chroma unavailable''))\<rparr>)
        ''openai'' ''Hello'' [] = Inr ''Hi!''
   \<and> fst (generate_response
            (demo_env\<lparr>collection_query := (\<lambda>q k. Inl (Exception ''chroma unavailable''))\<rparr>)
            ''Hello'' [] None empty_world) = Inr ''Sorry, something went wrong.''
   \<and> provider_calls (snd (generate_response
            (demo_env\<lparr>collection_query := (\<lambda>q k. Inl (Exception ''chroma unavailable''))\<rparr>)
            ''Hello'' [] None empty_world)) = []"
  using generate_response_fallback[of
      "demo_env\<lparr>collection_query := (\<lambda>q k. Inl (Exception ''chroma unavailable''))\<rparr>"
      "''Hello''" "[]" None empty_world]
    generate_response_calls[of
      "demo_env\<lparr>collection_query := (\<lambda>q k. Inl (Exception ''chroma unavailable''))\<rparr>"
      "''Hello''" "[]" None empty_world]
  by (simp add: get_error_message_def demo_env_def empty_world_def)

section \<open>Where the retrieved note goes\<close>

lemma dropWhile_all: "(\<forall>x\<in>set (dropWhile P s). P x) \<longleftrightarrow> (\<forall>x\<in>set s. P x)"
  by (induction s) auto

lemma strip_eq_Nil: "strip s = [] \<longleftrightarrow> (\<forall>c\<in>set s. is_space c)"
  by (simp add: strip_def dropWhile_eq_Nil_conv dropWhile_all)

lemma rag_note_not_blank: "strip (rag_note docs) \<noteq> []"
proof -
  have "CHR ''R'' \<in> set (rag_note docs)" by (simp add: rag_note_def)
  moreover have "\<not> is_space (CHR ''R'')" by (simp add: is_space_def)
  ultimately show ?thesis using strip_eq_Nil by blast
qed

lemma rag_note_nonempty: "rag_note docs \<noteq> []"
  by (simp add: rag_note_def)

lemma rag_docs_unfold:
  assumes "collection_query E msg (rag_top_k E) = Inr docs" and "docs \<noteq> []"
  shows "get_rag_context_and_modify_messages E msg ctx w =
     (let w2 = log INFO ''RAG context retrieved''
                 (log INFO ''ChromaDB query successful''
                    (w\<lparr>vector_queries := vector_queries w @ [(msg, rag_top_k E)]\<rparr>))
      in if ctx \<noteq> [] \<and> role (hd ctx) = System
         then (Inr ((hd ctx)\<lparr>content := content (hd ctx) @ rag_note docs\<rparr> # tl ctx, True), w2)
         else (case new_message E (rag_note docs) System (Some ''rag_context'') w2 of
                 (Inl e, w3) \<Rightarrow> (Inl e, w3)
               | (Inr m, w3) \<Rightarrow> (Inr (m # ctx, True), w3)))"
  using assms
  by (simp add: get_rag_context_and_modify_messages_def vector_query_def Let_def rag_note_nonempty)

lemma new_message_ok:
  assumes "1 \<le> length c" and "length c \<le> 4000" and "strip c \<noteq> []"
  shows "new_message E c r sid w
         = (Inr \<lparr>msg_id = uuid_of E (uuid_count w), content = strip c, role = r, session_id = sid\<rparr>,
            w\<lparr>uuid_count := Suc (uuid_count w)\<rparr>)"
  using assms by (cases c) (simp_all add: new_message_def uuid4_def)

lemma new_message_too_long:
  "4000 < length c \<Longrightarrow> new_message E c r sid w = (Inl (ValidationError ''content length''), w)"
  by (simp add: new_message_def)

text \<open>
  Claim C9, as amended. When the retrieval query returns documents, the note
  \<open>rag_note docs\<close> (two newlines, the heading \<open>Relevant information from memory:\<close>, a
  newline, the documents joined by newlines) is appended to the content of the first
  context message when that message has the system role. Otherwise a new system message
  is inserted at the head of the context, its content the note with surrounding
  whitespace stripped, provided the note has at most 4000 characters; a longer note is
  rejected by the \<open>Message\<close> validation.
\<close>

theorem rag_note_placement:
  assumes "collection_query E msg (rag_top_k E) = Inr docs" and "docs \<noteq> []"
  shows "(ctx \<noteq> [] \<and> role (hd ctx) = System \<longrightarrow>
            fst (get_rag_context_and_modify_messages E msg ctx w)
            = Inr ((hd ctx)\<lparr>content := content (hd ctx) @ rag_note docs\<rparr> # tl ctx, True))
       \<and> (\<not> (ctx \<noteq> [] \<and> role (hd ctx) = System) \<and> length (rag_note docs) \<le> 4000 \<longrightarrow>
            (\<exists>m. fst (get_rag_context_and_modify_messages E msg ctx w) = Inr (m # ctx, True)
                 \<and> role m = System \<and> content m = strip (rag_note docs)
                 \<and> session_id m = Some ''rag_context''))
       \<and> (\<not> (ctx \<noteq> [] \<and> role (hd ctx) = System) \<and> 4000 < length (rag_note docs) \<longrightarrow>
            (\<exists>e. fst (get_rag_context_and_modify_messages E msg ctx w) = Inl (ValidationError e)))"
proof (intro conjI impI)
  assume "ctx \<noteq> [] \<and> role (hd ctx) = System"
  then show "fst (get_rag_context_and_modify_messages E msg ctx w)
            = Inr ((hd ctx)\<lparr>content := content (hd ctx) @ rag_note docs\<rparr> # tl ctx, True)"
    by (simp add: rag_docs_unfold[OF assms] Let_def)
next
  assume a: "\<not> (ctx \<noteq> [] \<and> role (hd ctx) = System) \<and> length (rag_note docs) \<le> 4000"
  have l: "1 \<le> length (rag_note docs)"
    using rag_note_nonempty[of docs] by (cases "rag_note docs") simp_all
  from a l show "\<exists>m. fst (get_rag_context_and_modify_messages E msg ctx w) = Inr (m # ctx, True)
                 \<and> role m = System \<and> content m = strip (rag_note docs)
                 \<and> session_id m = Some ''rag_context''"
    by (cases "ctx = []") (simp_all add: rag_docs_unfold[OF assms] Let_def new_message_ok rag_note_not_blank)
next
  assume a: "\<not> (ctx \<noteq> [] \<and> role (hd ctx) = System) \<and> 4000 < length (rag_note docs)"
  then show "\<exists>e. fst (get_rag_context_and_modify_messages E msg ctx w) = Inl (ValidationError e)"
    by (cases "ctx = []") (simp_all add: rag_docs_unfold[OF assms] Let_def new_message_too_long)
qed

theorem rag_note_placement_witness:
  "fst (get_rag_context_and_modify_messages
          (demo_env\<lparr>collection_query := (\<lambda>q k. Inr [\<lparr>document = ''D''\<rparr>])\<rparr>) ''Hello''
          [\<lparr>msg_id = ''0'', content = ''S'', role = System, session_id = Some ''s1''\<rparr>] empty_world)
   = Inr ([\<lparr>msg_id = ''0'',
            content = ''S'' @ [nl, nl] @ ''Relevant information from memory:'' @ [nl] @ ''D'',
            role = System, session_id = Some ''s1''\<rparr>], True)
   \<and> (\<exists>m. fst (get_rag_context_and_modify_messages
                 (demo_env\<lparr>collection_query := (\<lambda>q k. Inr [\<lparr>document = ''D''\<rparr>])\<rparr>) ''Hello''
                 [] empty_world) = Inr ([m], True)
          \<and> role m = System \<and> session_id m = Some ''rag_context'')"
proof -
  let ?E = "demo_env\<lparr>collection_query := (\<lambda>q k. Inr [\<lparr>document = ''D''\<rparr>])\<rparr>"
  let ?s = "\<lparr>msg_id = ''0'', content = ''S'', role = System, session_id = Some ''s1''\<rparr>"
  have q: "collection_query ?E ''Hello'' (rag_top_k ?E) = Inr [\<lparr>document = ''D''\<rparr>]" by simp
  have d: "[\<lparr>document = ''D''\<rparr>] \<noteq> []" by simp
  have len: "length (rag_note [\<lparr>document = ''D''\<rparr>]) \<le> 4000" by (simp add: rag_note_def)
  from rag_note_placement[OF q d, of "[?s]" empty_world]
  have one: "fst (get_rag_context_and_modify_messages ?E ''Hello'' [?s] empty_world)
             = Inr ([?s\<lparr>content := content ?s @ rag_note [\<lparr>document = ''D''\<rparr>]\<rparr>], True)"
    by simp
  from rag_note_placement[OF q d, of "[]" empty_world] len
  have two: "\<exists>m. fst (get_rag_context_and_modify_messages ?E ''Hello'' [] empty_world)
                  = Inr ([m], True) \<and> role m = System \<and> session_id m = Some ''rag_context''"
    by auto
  from one two show ?thesis by (simp add: rag_note_def)
qed

text \<open>
  The claim as stated puts the note ahead of the existing system message. With the
  context \<open>[system S]\<close> and one document \<open>D\<close> the result is a single system message whose
  content is \<open>S\<close> followed by the note.
\<close>

theorem rag_note_appended_counterexample:
  "fst (get_rag_context_and_modify_messages
          (demo_env\<lparr>collection_query := (\<lambda>q k. Inr [\<lparr>document = ''D''\<rparr>])\<rparr>) ''Hello''
          [\<lparr>msg_id = ''0'', content = ''S'', role = System, session_id = Some ''s1''\<rparr>] empty_world)
   = Inr ([\<lparr>msg_id = ''0'',
            content = ''S'' @ [nl, nl] @ ''Relevant information from memory:'' @ [nl] @ ''D'',
            role = System, session_id = Some ''s1''\<rparr>], True)"
  by (simp add: get_rag_context_and_modify_messages_def vector_query_def demo_env_def
      rag_note_def Let_def)

section \<open>Lemmas about the message pipeline\<close>

lemma process_message_reaches_append:
  assumes "strip (content message) \<noteq> []"
    and "resolve_session E session w = (sid, w1)"
    and "svc_add_message S sid (message\<lparr>session_id := Some sid\<rparr>) w1 = (Inr stored, w2)"
    and "svc_get_conversation_history S sid 10 0 w2 = (Inr ctx, w3)"
    and "svc_generate_response S (content message) (py_slice ctx None (Some (- 1))) w3
         = (Inr reply_text, w4)"
    and "new_message E reply_text Assistant (Some sid) w4 = (Inr ai_msg, w5)"
  shows "process_message E S session message w =
     (case svc_add_message S sid ai_msg w5 of
        (Inl e, w6) \<Rightarrow>
          (Inl (MemoryServiceException ''Failed to save AI message'' e),
           log ERROR ''Error adding AI message to memory'' w6)
      | (Inr stored2, w6) \<Rightarrow>
          (Inr \<lparr>r_message = reply_text, r_message_id = msg_id ai_msg,
                r_session_id = sid, r_role = ''assistant''\<rparr>,
           (case svc_trigger_research_if_needed S (content message) reply_text sid
                   (w6\<lparr>tasks := tasks w6 @ [PopulateVectorMemory (content message) reply_text sid]\<rparr>) of
              (Inl e, w') \<Rightarrow> log ERROR ''Failed to trigger research agent'' w'
            | (Inr u, w') \<Rightarrow> w')))"
  using assms
  by (simp add: process_message_def resolve_session_def Let_def split: prod.splits sum.splits)


lemma process_message_user_append_raises:
  assumes "strip (content message) \<noteq> []"
    and "resolve_session E session w = (sid, w1)"
    and "svc_add_message S sid (message\<lparr>session_id := Some sid\<rparr>) w1 = (Inl e, w2)"
  shows "process_message E S session message w
         = (Inl (MemoryServiceException ''Failed to save user message'' e),
            log ERROR ''Error adding user message to memory'' w2)"
  using assms
  by (simp add: process_message_def resolve_session_def Let_def split: prod.splits)

lemma step_logs_failures_refl [simp]: "step_logs_failures E w w"
  by (simp add: step_logs_failures_def)

lemma step_logs_failures_trans:
  assumes "step_logs_failures E w w1" and "step_logs_failures E w1 w2"
  shows "step_logs_failures E w w2"
proof -
  from assms(1) obtain xs where x: "logs w1 = logs w @ xs" "io_count w \<le> io_count w1"
    "(\<exists>k. io_count w \<le> k \<and> k < io_count w1 \<and> io_fails E k) \<longrightarrow> (\<exists>ev. (ERROR, ev) \<in> set xs)"
    unfolding step_logs_failures_def by blast
  from assms(2) obtain ys where y: "logs w2 = logs w1 @ ys" "io_count w1 \<le> io_count w2"
    "(\<exists>k. io_count w1 \<le> k \<and> k < io_count w2 \<and> io_fails E k) \<longrightarrow> (\<exists>ev. (ERROR, ev) \<in> set ys)"
    unfolding step_logs_failures_def by blast
  have l: "logs w2 = logs w @ (xs @ ys)" using x(1) y(1) by simp
  have c: "io_count w \<le> io_count w2" using x(2) y(2) by simp
  have f: "(\<exists>k. io_count w \<le> k \<and> k < io_count w2 \<and> io_fails E k)
           \<longrightarrow> (\<exists>ev. (ERROR, ev) \<in> set (xs @ ys))"
  proof
    assume "\<exists>k. io_count w \<le> k \<and> k < io_count w2 \<and> io_fails E k"
    then obtain k where k: "io_count w \<le> k" "k < io_count w2" "io_fails E k" by blast
    show "\<exists>ev. (ERROR, ev) \<in> set (xs @ ys)"
    proof (cases "k < io_count w1")
      case True
      with k x(3) show ?thesis by auto
    next
      case False
      with k y(3) show ?thesis by auto
    qed
  qed
  show ?thesis unfolding step_logs_failures_def using l c f by blast
qed

lemma step_json_load:
  "step_logs_failures E w (snd (load_conversation E JSONStorageBackend sid w))"
  by (auto simp: step_logs_failures_def load_conversation_def backend_load_conversation_def
      json_load_conversation_def io_def log_def Let_def less_Suc_eq
      split: option.splits)

lemma step_save: "step_logs_failures E w (snd (save_conversation E c w))"
  by (auto simp: step_logs_failures_def save_conversation_def json_save_conversation_def
      io_def log_def Let_def less_Suc_eq)

lemma step_redis_add: "step_logs_failures E w (snd (redis_add_message E sid m w))"
  by (auto simp: step_logs_failures_def redis_add_message_def io_def log_def Let_def
      redis_set_list_def less_Suc_eq)

lemma step_add_message: "step_logs_failures E w (snd (add_message E b sid m w))"
proof (cases b)
  case JSONStorageBackend
  show ?thesis
    unfolding JSONStorageBackend add_message_json_unfold Let_def snd_conv
    by (rule step_logs_failures_trans[OF step_json_load step_save])
next
  case RedisStorageBackend
  have "step_logs_failures E w (snd (redis_add_message E sid m w))" by (rule step_redis_add)
  then show ?thesis
    unfolding RedisStorageBackend
    by (cases "redis_add_message E sid m w"; cases "fst (redis_add_message E sid m w)")
       (auto simp: add_message_def add_message_body_def step_logs_failures_def log_def)
qed

lemma failures_are_logged:
  "step_logs_failures E w w' \<Longrightarrow> io_failed_between E w w' \<Longrightarrow> error_logged_between w w'"
proof -
  assume s: "step_logs_failures E w w'" and f: "io_failed_between E w w'"
  from f obtain k where k: "io_count w \<le> k" "k < io_count w'" "io_fails E k"
    by (auto simp: io_failed_between_def list_ex_iff)
  from s obtain xs where x: "logs w' = logs w @ xs"
    "(\<exists>k. io_count w \<le> k \<and> k < io_count w' \<and> io_fails E k) \<longrightarrow> (\<exists>ev. (ERROR, ev) \<in> set xs)"
    unfolding step_logs_failures_def by blast
  from x(2) k obtain ev where ev: "(ERROR, ev) \<in> set xs" by blast
  then have "\<exists>entry\<in>set xs. fst entry = ERROR" by force
  then show ?thesis by (simp add: error_logged_between_def list_ex_iff x(1))
qed

lemma add_message_false_failed:
  "fst (add_message E b sid m w) = Inr False \<Longrightarrow>
   io_failed_between E w (snd (add_message E b sid m w))"
  by (cases b)
     (auto simp: add_message_def add_message_body_def save_conversation_def
        json_save_conversation_def redis_add_message_def load_conversation_def
        backend_load_conversation_def json_load_conversation_def
        io_def log_def Let_def io_failed_between_def list_ex_iff
        split: prod.splits sum.splits option.splits if_splits)


lemmas eval_defs =
  process_message_def default_services_def add_message_def add_message_body_def
  load_conversation_def backend_load_conversation_def json_load_conversation_def
  save_conversation_def json_save_conversation_def get_conversation_history_def
  generate_response_def generate_response_body_def get_provider_def
  get_rag_context_and_modify_messages_def vector_query_def load_name_rag_context
  get_error_message_def new_message_def uuid4_def io_def log_def
  trigger_research_if_needed_def conversation_add_message_def
  py_slice_def norm_index_def strip_def is_space_def Let_def
  demo_env_def empty_world_def user_message_def


lemma same_store_refl [simp]: "same_store w w"
  by (simp add: same_store_def)


lemma same_store_log [simp]: "same_store w (log lvl ev w') = same_store w w'"
  by (simp add: same_store_def log_def)















section \<open>A storage failure after generation\<close>

text \<open>
  Claim C1. Take a request on the repository's own services that has passed the earlier
  stages: the user message was handed to \<open>MemoryService.add_message\<close>, the context was
  fetched, \<open>generate_response\<close> returned the reply text and the assistant message was
  built. Let the append of the assistant message answer \<open>r\<close> and leave the state \<open>w6\<close>.
  Then \<open>process_message\<close> returns the reply text, whatever \<open>r\<close> is; the append did not
  raise; if it answered \<open>False\<close>, a storage operation failed during it; and if a storage
  operation failed during it, a line of level \<open>ERROR\<close> was written to the log during it.
\<close>

theorem assistant_append_failure_keeps_reply:
  assumes valid: "strip (content message) \<noteq> []"
    and rs: "resolve_session E session w = (sid, w1)"
    and a1: "add_message E b sid (message\<lparr>session_id := Some sid\<rparr>) w1 = (stored, w2)"
    and a2: "get_conversation_history E b sid 10 0 w2 = (ctx, w3)"
    and a3: "generate_response E (content message) (py_slice ctx None (Some (- 1))) None w3
             = (Inr reply_text, w4)"
    and a4: "new_message E reply_text Assistant (Some sid) w4 = (Inr ai_msg, w5)"
    and a5: "add_message E b sid ai_msg w5 = (r, w6)"
  shows "fst (process_message E (default_services E b) session message w)
           = Inr \<lparr>r_message = reply_text, r_message_id = msg_id ai_msg,
                  r_session_id = sid, r_role = ''assistant''\<rparr>
         \<and> (\<exists>ok. r = Inr ok)
         \<and> (r = Inr False \<longrightarrow> io_failed_between E w5 w6)
         \<and> (io_failed_between E w5 w6 \<longrightarrow> error_logged_between w5 w6)"
proof -
  let ?S = "default_services E b"
  obtain ok1 where s1: "stored = Inr ok1"
    using add_message_never_raises[of E b sid "message\<lparr>session_id := Some sid\<rparr>" w1] a1 by auto
  obtain ok where r: "r = Inr ok"
    using add_message_never_raises[of E b sid ai_msg w5] a5 by auto
  have b1: "svc_add_message ?S sid (message\<lparr>session_id := Some sid\<rparr>) w1 = (Inr ok1, w2)"
    using a1 s1 by (simp add: default_services_def)
  have b2: "svc_get_conversation_history ?S sid 10 0 w2 = (Inr ctx, w3)"
    using a2 by (simp add: default_services_def)
  have b3: "svc_generate_response ?S (content message) (py_slice ctx None (Some (- 1))) w3
            = (Inr reply_text, w4)"
    using a3 by (simp add: default_services_def)
  have b5: "svc_add_message ?S sid ai_msg w5 = (Inr ok, w6)"
    using a5 r by (simp add: default_services_def)
  have res: "fst (process_message E ?S session message w)
           = Inr \<lparr>r_message = reply_text, r_message_id = msg_id ai_msg,
                  r_session_id = sid, r_role = ''assistant''\<rparr>"
    unfolding process_message_reaches_append[OF valid rs b1 b2 b3 a4] b5 by simp
  have f: "r = Inr False \<longrightarrow> io_failed_between E w5 w6"
    using add_message_false_failed[of E b sid ai_msg w5] a5 by simp
  have l: "io_failed_between E w5 w6 \<longrightarrow> error_logged_between w5 w6"
    using failures_are_logged[OF step_add_message[of E w5 b sid ai_msg]] a5 by simp
  from res r f l show ?thesis by simp
qed

theorem assistant_append_failure_keeps_reply_witness:
  "fst (process_message (demo_env\<lparr>io_fails := (\<lambda>k. k = 3)\<rparr>)
          (default_services (demo_env\<lparr>io_fails := (\<lambda>k. k = 3)\<rparr>) JSONStorageBackend)
          (Some ''s1'') (user_message ''m1'' ''Hello'' ''s1'') empty_world)
   = Inr \<lparr>r_message = ''Sorry, something went wrong.'', r_message_id = ''uuid-'',
          r_session_id = ''s1'', r_role = ''assistant''\<rparr>
   \<and> json_files (snd (process_message (demo_env\<lparr>io_fails := (\<lambda>k. k = 3)\<rparr>)
          (default_services (demo_env\<lparr>io_fails := (\<lambda>k. k = 3)\<rparr>) JSONStorageBackend)
          (Some ''s1'') (user_message ''m1'' ''Hello'' ''s1'') empty_world)) ''s1''
     = Some \<lparr>c_session_id = ''s1'', messages = [user_message ''m1'' ''Hello'' ''s1''],
             title = None\<rparr>
   \<and> (ERROR, ''Failed to save conversation'')
       \<in> set (logs (snd (process_message (demo_env\<lparr>io_fails := (\<lambda>k. k = 3)\<rparr>)
          (default_services (demo_env\<lparr>io_fails := (\<lambda>k. k = 3)\<rparr>) JSONStorageBackend)
          (Some ''s1'') (user_message ''m1'' ''Hello'' ''s1'') empty_world)))"
proof -
  let ?E = "demo_env\<lparr>io_fails := (\<lambda>k. k = 3)\<rparr>"
  let ?m = "user_message ''m1'' ''Hello'' ''s1''"
  let ?a1 = "add_message ?E JSONStorageBackend ''s1'' (?m\<lparr>session_id := Some ''s1''\<rparr>) empty_world"
  let ?h = "get_conversation_history ?E JSONStorageBackend ''s1'' 10 0 (snd ?a1)"
  let ?g = "generate_response ?E (content ?m) (py_slice [?m] None (Some (- 1))) None (snd ?h)"
  let ?n = "new_message ?E ''Sorry, something went wrong.'' Assistant (Some ''s1'') (snd ?g)"
  let ?ai = "\<lparr>msg_id = ''uuid-'', content = ''Sorry, something went wrong.'', role = Assistant,
              session_id = Some ''s1''\<rparr>"
  let ?a2 = "add_message ?E JSONStorageBackend ''s1'' ?ai (snd ?n)"
  have h1: "strip (content ?m) \<noteq> []" by (simp add: eval_defs)
  have h2: "resolve_session ?E (Some ''s1'') empty_world = (''s1'', empty_world)"
    by (simp add: resolve_session_def)
  have h3: "?a1 = (Inr True, snd ?a1)" by (simp add: prod_eq_iff eval_defs)
  have h4: "?h = ([?m], snd ?h)" by (simp add: prod_eq_iff eval_defs)
  have h5: "?g = (Inr ''Sorry, something went wrong.'', snd ?g)" by (simp add: prod_eq_iff eval_defs)
  have h6: "?n = (Inr ?ai, snd ?n)" by (simp add: prod_eq_iff eval_defs)
  have h7: "?a2 = (Inr False, snd ?a2)" by (simp add: prod_eq_iff eval_defs)
  from assistant_append_failure_keeps_reply[OF h1 h2 h3 h4 h5 h6 h7]
  have one: "fst (process_message ?E (default_services ?E JSONStorageBackend)
               (Some ''s1'') ?m empty_world)
             = Inr \<lparr>r_message = ''Sorry, something went wrong.'', r_message_id = ''uuid-'',
                    r_session_id = ''s1'', r_role = ''assistant''\<rparr>"
    by simp
  have two: "json_files (snd (process_message ?E (default_services ?E JSONStorageBackend)
               (Some ''s1'') ?m empty_world)) ''s1''
             = Some \<lparr>c_session_id = ''s1'', messages = [?m], title = None\<rparr>"
    by (simp add: eval_defs)
  have three: "(ERROR, ''Failed to save conversation'')
       \<in> set (logs (snd (process_message ?E (default_services ?E JSONStorageBackend)
               (Some ''s1'') ?m empty_world)))"
    by (simp add: eval_defs)
  from one two three show ?thesis by blast
qed

text \<open>
  The handler's own \<open>except\<close> branch around the assistant append is taken only when the
  injected store raises, which \<open>MemoryService.add_message\<close> never does
  (\<open>add_message_never_raises\<close>); with the collaborators of the handler's unit test it
  raises \<open>MemoryServiceException\<close>.
\<close>

lemma injected_store_exception_is_raised:
  "process_message demo_env (mock_services (user_message ''m1'' ''Hello'' ''s1''))
     (Some ''s1'') (user_message ''m1'' ''Hello'' ''s1'') empty_world
   = (Inl (MemoryServiceException ''Failed to save AI message'' (Exception ''ai save fail'')),
      log ERROR ''Error adding AI message to memory'' (empty_world\<lparr>uuid_count := 1\<rparr>))"
  by (simp add: process_message_def mock_services_def new_message_def uuid4_def
      strip_def is_space_def user_message_def Let_def py_slice_def norm_index_def
      empty_world_def demo_env_def)


section \<open>A storage failure before generation\<close>

text \<open>
  Claim C2, at a failing input. Every storage operation fails (JSON backend, empty
  state). \<open>MemoryService.add_message\<close> answers \<open>False\<close> for the user message without
  raising; \<open>process_message\<close> does not look at the answer and goes on: the retrieval
  query runs, a reply is returned, and no conversation was stored.
\<close>

theorem user_append_failure_continues:
  "fst (add_message (demo_env\<lparr>io_fails := (\<lambda>k. True)\<rparr>) JSONStorageBackend ''s1''
          (user_message ''m1'' ''Hello'' ''s1'') empty_world) = Inr False
   \<and> fst (process_message (demo_env\<lparr>io_fails := (\<lambda>k. True)\<rparr>)
          (default_services (demo_env\<lparr>io_fails := (\<lambda>k. True)\<rparr>) JSONStorageBackend)
          (Some ''s1'') (user_message ''m1'' ''Hello'' ''s1'') empty_world)
     = Inr \<lparr>r_message = ''Sorry, something went wrong.'', r_message_id = ''uuid-'',
            r_session_id = ''s1'', r_role = ''assistant''\<rparr>
   \<and> vector_queries (snd (process_message (demo_env\<lparr>io_fails := (\<lambda>k. True)\<rparr>)
          (default_services (demo_env\<lparr>io_fails := (\<lambda>k. True)\<rparr>) JSONStorageBackend)
          (Some ''s1'') (user_message ''m1'' ''Hello'' ''s1'') empty_world))
     = [(''Hello'', 3)]
   \<and> json_files (snd (process_message (demo_env\<lparr>io_fails := (\<lambda>k. True)\<rparr>)
          (default_services (demo_env\<lparr>io_fails := (\<lambda>k. True)\<rparr>) JSONStorageBackend)
          (Some ''s1'') (user_message ''m1'' ''Hello'' ''s1'') empty_world)) ''s1''
     = None"
  by (simp add: eval_defs)


text \<open>
  This is not particular to the input: with the repository's own services
  \<open>process_message\<close> never raises \<open>MemoryServiceException\<close>, whatever the backend does,
  because \<open>MemoryService.add_message\<close> never raises. When an injected store does raise on
  the user message, the handler aborts as the claim says (lemma
  \<open>process_message_user_append_raises\<close>).
\<close>

lemma new_message_error: "new_message E c r sid w = (Inl e, w') \<Longrightarrow> \<exists>t. e = ValidationError t"
  by (auto simp: new_message_def uuid4_def split: if_splits)

lemma default_services_never_memory_error:
  "fst (process_message E (default_services E b) session message w)
   \<noteq> Inl (MemoryServiceException txt e)"
proof (cases "strip (content message) = []")
  case True
  then show ?thesis by (simp add: process_message_def)
next
  case False
  obtain sid w1 where rs: "resolve_session E session w = (sid, w1)"
    by (cases "resolve_session E session w")
  let ?S = "default_services E b"
  let ?um = "message\<lparr>session_id := Some sid\<rparr>"
  obtain r1 w2 where a1: "svc_add_message ?S sid ?um w1 = (Inr r1, w2)"
    using add_message_never_raises[of E b sid ?um w1]
    by (cases "add_message E b sid ?um w1") (auto simp: default_services_def)
  obtain ctx w3 where a2: "svc_get_conversation_history ?S sid 10 0 w2 = (Inr ctx, w3)"
    by (cases "get_conversation_history E b sid 10 0 w2") (auto simp: default_services_def)
  obtain r3 w4 where a3: "svc_generate_response ?S (content message)
                            (py_slice ctx None (Some (- 1))) w3 = (r3, w4)"
    by (cases "svc_generate_response ?S (content message) (py_slice ctx None (Some (- 1))) w3")
  show ?thesis
  proof (cases r3)
    case (Inl e3)
    with False rs a1 a2 a3 show ?thesis
      by (simp add: process_message_def resolve_session_def Let_def split: prod.splits)
  next
    case (Inr reply_text)
    obtain r4 w5 where a4: "new_message E reply_text Assistant (Some sid) w4 = (r4, w5)"
      by (cases "new_message E reply_text Assistant (Some sid) w4")
    show ?thesis
    proof (cases r4)
      case (Inl e4)
      with new_message_error[of E reply_text Assistant "Some sid" w4 e4 w5] a4
      obtain t where "e4 = ValidationError t" by auto
      with False rs a1 a2 a3 Inr a4 Inl show ?thesis
        by (simp add: process_message_def resolve_session_def Let_def split: prod.splits)
    next
      case ai: (Inr ai_msg)
      obtain r5 w6 where a5: "svc_add_message ?S sid ai_msg w5 = (Inr r5, w6)"
        using add_message_never_raises[of E b sid ai_msg w5]
        by (cases "add_message E b sid ai_msg w5") (auto simp: default_services_def)
      from a3 Inr have a3': "svc_generate_response ?S (content message)
                            (py_slice ctx None (Some (- 1))) w3 = (Inr reply_text, w4)" by simp
      from a4 ai have a4': "new_message E reply_text Assistant (Some sid) w4 = (Inr ai_msg, w5)"
        by simp
      show ?thesis
        unfolding process_message_reaches_append[OF False rs a1 a2 a3' a4'] a5 by simp
    qed
  qed
qed


section \<open>A provider that always fails\<close>





section \<open>Deleting a conversation\<close>

lemma delete_conversation_no_faults:
  "no_faults E \<Longrightarrow> fst (delete_conversation E b sid w) = True"
  by (cases b)
     (simp_all add: delete_conversation_def backend_delete_conversation_def
        json_delete_conversation_def redis_delete_conversation_def io_no_faults
        split: option.splits)

lemma route_handlers_never_404:
  "fst (route_handlers what r) \<noteq> Inl (HTTPException 404 d)"
  by (cases r; cases "fst r")
     (auto simp: route_handlers_def split: exn.splits)

text \<open>
  Claim C7, on the code. The delete route never answers 404: when no storage operation
  fails it answers with the success message, whether or not the session exists (the JSON
  backend skips a missing file, Redis deletes missing keys silently, and
  \<open>MemoryService.delete_conversation\<close> returns \<open>True\<close>); and the \<open>HTTPException\<close> 404
  that the route raises on \<open>False\<close> is caught by its own \<open>except Exception\<close> and
  answered as 500.
\<close>

theorem delete_route_never_not_found:
  "(no_faults E \<longrightarrow>
      fst (delete_conversation_route E b sid w) = Inr ''Conversation deleted successfully'')
   \<and> fst (delete_conversation_route E b sid w) \<noteq> Inl (HTTPException 404 d)"
proof -
  have "no_faults E \<Longrightarrow>
        fst (delete_conversation_route E b sid w) = Inr ''Conversation deleted successfully''"
    using delete_conversation_no_faults[of E b sid w]
    by (cases "delete_conversation E b sid w")
       (simp add: delete_conversation_route_def delete_conversation_body_def route_handlers_def)
  then show ?thesis
    by (simp add: delete_conversation_route_def route_handlers_never_404)
qed

theorem delete_route_never_not_found_witness:
  "fst (delete_conversation_route demo_env JSONStorageBackend ''s1'' empty_world)
     = Inr ''Conversation deleted successfully''
   \<and> fst (delete_conversation_route demo_env JSONStorageBackend ''s1''
            (snd (delete_conversation_route demo_env JSONStorageBackend ''s1'' empty_world)))
     = Inr ''Conversation deleted successfully''
   \<and> json_files empty_world ''s1'' = None"
proof -
  have nf: "no_faults demo_env" by (simp add: no_faults_def demo_env_def)
  from delete_route_never_not_found[of demo_env JSONStorageBackend "''s1''" empty_world] nf
    delete_route_never_not_found[of demo_env JSONStorageBackend "''s1''"
      "snd (delete_conversation_route demo_env JSONStorageBackend ''s1'' empty_world)"]
  show ?thesis by (simp add: empty_world_def)
qed

section \<open>Paging through the history\<close>

lemma two_message_world_files:
  "json_files two_message_world
   = [''s1'' \<mapsto> \<lparr>c_session_id = ''s1'',
                   messages = [user_message ''1'' ''first'' ''s1'',
                               user_message ''2'' ''second'' ''s1''],
                   title = None\<rparr>]"
  by (simp add: two_message_world_def eval_defs)

lemmas route_defs =
  get_chat_history_def get_chat_history_body_def route_handlers_def
  get_conversation_history_def load_conversation_def backend_load_conversation_def
  json_load_conversation_def io_def log_def message_count_def py_slice_def norm_index_def
  Let_def demo_env_def

text \<open>
  Claim C5, at a failing input. The session holds two messages and the page size is 1.
  Page 1 fetches both messages and keeps the first of them (the older one) with
  \<open>has_more = True\<close>; page 2 fetches the older message again with \<open>has_more = False\<close>.
  The concatenation is the older message twice; the newer message is never returned.
\<close>

theorem history_pages_repeat_and_skip:
  "fst (load_conversation demo_env JSONStorageBackend ''s1'' two_message_world)
     = Some \<lparr>c_session_id = ''s1'',
             messages = [user_message ''1'' ''first'' ''s1'', user_message ''2'' ''second'' ''s1''],
             title = None\<rparr>
   \<and> (case fst (get_chat_history demo_env JSONStorageBackend ''s1'' 1 1 two_message_world) of
        Inl e \<Rightarrow> None | Inr h \<Rightarrow> Some (h_messages h, has_more h))
     = Some ([user_message ''1'' ''first'' ''s1''], True)
   \<and> (case fst (get_chat_history demo_env JSONStorageBackend ''s1'' 2 1
                  (snd (get_chat_history demo_env JSONStorageBackend ''s1'' 1 1 two_message_world))) of
        Inl e \<Rightarrow> None | Inr h \<Rightarrow> Some (h_messages h, has_more h))
     = Some ([user_message ''1'' ''first'' ''s1''], False)
   \<and> collect_pages 3 demo_env JSONStorageBackend ''s1'' 1 1 two_message_world
     = Some [user_message ''1'' ''first'' ''s1'', user_message ''1'' ''first'' ''s1'']"
  by (simp add: two_message_world_files route_defs eval_nat_numeral)

section \<open>Exporting a conversation as JSON\<close>

lemma load_absent:
  "session_absent b w sid \<Longrightarrow> fst (load_conversation E b sid w) = None"
  by (cases b)
     (auto simp: session_absent_def load_conversation_def backend_load_conversation_def
        json_load_conversation_def redis_load_conversation_def redis_lrange_all_def io_def
        Let_def split: option.splits)

text \<open>
  \<open>export_conversation\<close> answers \<open>None\<close> for a session that does not exist. For a stored
  conversation \<open>c\<close> (what \<open>load_conversation\<close> returns) the JSON export is pydantic's
  serialisation \<open>model_dump_json c\<close>; what a parser reads back from that text is decided by
  pydantic, outside the repository's code, and is not modelled.
\<close>

lemma export_absent:
  "session_absent b w sid \<Longrightarrow> fst (export_conversation E b sid fmt w) = Inr None"
  using load_absent[of b w sid E]
  by (cases "load_conversation E b sid w") (simp add: export_conversation_def)

lemma export_json_text:
  "fst (load_conversation E b sid w) = Some c \<Longrightarrow>
   fst (export_conversation E b sid ''json'' w) = Inr (Some (model_dump_json E c))"
  by (cases "load_conversation E b sid w") (simp add: export_conversation_def)

end
